theory Spec2Isabelle
  imports Main "HOL-Library.Word" "HOL-Library.Multiset"
begin

section \<open>Errors (errors.go and the standard \<^verbatim>\<open>errors\<close> package)\<close>

text \<open>
  The package declares its error values with \<^verbatim>\<open>errors.New\<close>; each is a distinct
  pointer, compared by identity. They are the constructors of \<open>sentinel\<close>.
\<close>

datatype sentinel =
    ErrInvalidS3ClientConfig
  | ErrFailedToUploadFile
  | ErrFailedToRemoveFile
  | ErrFailedToCheckIfFileExists
  | ErrFailedToRemoveFiles
  | ErrMissedBucketName
  | ErrMissedS3Client
  | ErrMissedCDNURL
  | ErrInvalidCDNURL
  | ErrFailedToUploadFileFromURL
  | ErrFailedToUploadFileFromMultipartForm
  | ErrNotFound
  | ErrUnexpected
  | ErrMissedHTTPClient

text \<open>
  A non-nil Go \<^verbatim>\<open>error\<close> value, as far as this package can observe it:
  \<^item> \<open>Sentinel\<close>: one of the package's own values;
  \<^item> \<open>AwsError code message\<close>: a value implementing \<^verbatim>\<open>awserr.Error\<close>, with its
    \<^verbatim>\<open>Code()\<close> and \<^verbatim>\<open>Message()\<close>;
  \<^item> \<open>Plain\<close>: any other error without an \<^verbatim>\<open>Unwrap\<close> method (a transport error);
  \<^item> \<open>Wrapped\<close>: an error with \<^verbatim>\<open>Unwrap() error\<close>, as \<^verbatim>\<open>fmt.Errorf("...: %w", e)\<close> builds;
  \<^item> \<open>Joined\<close>: the result of \<^verbatim>\<open>errors.Join\<close>, with \<^verbatim>\<open>Unwrap() []error\<close>.
  A nilable \<^verbatim>\<open>error\<close> is an \<open>error option\<close>, \<open>None\<close> being \<^verbatim>\<open>nil\<close>.
\<close>

datatype error =
    Sentinel sentinel
  | AwsError string string
  | Plain string
  | Wrapped string error
  | Joined "error list"

text \<open>\<^verbatim>\<open>errors.Join\<close>: nil arguments are discarded; the result is nil when none is left.\<close>

definition errors_Join :: "error option list \<Rightarrow> error option" where
  "errors_Join errs =
     (case List.map_filter (\<lambda>e. e) errs of [] \<Rightarrow> None | e # es \<Rightarrow> Some (Joined (e # es)))"

text \<open>
  \<^verbatim>\<open>errors.Is(err, target)\<close> for a target that is one of the package's values: a
  depth-first walk of the tree of \<^verbatim>\<open>Unwrap\<close> results, comparing each node with the target.
\<close>

fun errors_Is :: "error \<Rightarrow> sentinel \<Rightarrow> bool" where
  "errors_Is (Sentinel s) t = (s = t)"
| "errors_Is (AwsError c m) t = False"
| "errors_Is (Plain m) t = False"
| "errors_Is (Wrapped m e) t = errors_Is e t"
| "errors_Is (Joined es) t = list_ex (\<lambda>e. errors_Is e t) es"

text \<open>
  \<^verbatim>\<open>errors.As(err, &aerr)\<close> with \<^verbatim>\<open>aerr\<close> of type \<^verbatim>\<open>awserr.Error\<close>: the first node of
  the same depth-first walk that implements the interface; the result is its code and message.
\<close>

fun errors_As_awserr :: "error \<Rightarrow> (string \<times> string) option" where
  "errors_As_awserr (Sentinel s) = None"
| "errors_As_awserr (AwsError c m) = Some (c, m)"
| "errors_As_awserr (Plain m) = None"
| "errors_As_awserr (Wrapped m e) = errors_As_awserr e"
| "errors_As_awserr (Joined es) =
     (case List.map_filter (\<lambda>r. r) (map errors_As_awserr es) of [] \<Rightarrow> None | r # _ \<Rightarrow> Some r)"

text \<open>Whether a provider error occurs anywhere in the tree of an error.\<close>

fun has_awserr :: "error \<Rightarrow> bool" where
  "has_awserr (Sentinel s) = False"
| "has_awserr (AwsError c m) = True"
| "has_awserr (Plain m) = False"
| "has_awserr (Wrapped m e) = has_awserr e"
| "has_awserr (Joined es) = list_ex has_awserr es"

section \<open>Strings (the functions of \<^verbatim>\<open>strings\<close>, \<^verbatim>\<open>fmt\<close> and \<^verbatim>\<open>path\<close> that the package calls)\<close>

text \<open>\<^verbatim>\<open>strings.Trim(s, cutset)\<close>: all leading and trailing bytes of the cutset removed.\<close>

definition strings_Trim :: "string \<Rightarrow> string \<Rightarrow> string" where
  "strings_Trim s cutset =
     rev (dropWhile (\<lambda>c. c \<in> set cutset) (rev (dropWhile (\<lambda>c. c \<in> set cutset) s)))"

definition strings_HasPrefix :: "string \<Rightarrow> string \<Rightarrow> bool" where
  "strings_HasPrefix s pre = (take (length pre) s = pre)"

definition strings_TrimPrefix :: "string \<Rightarrow> string \<Rightarrow> string" where
  "strings_TrimPrefix s pre = (if strings_HasPrefix s pre then drop (length pre) s else s)"

section \<open>utils.go\<close>

definition filenameFromURL :: "string \<Rightarrow> string \<Rightarrow> string" where
  "filenameFromURL cdnURL fileURL = strings_TrimPrefix fileURL cdnURL"

definition handleS3Error :: "error option \<Rightarrow> error option" where
  "handleS3Error err =
     (case err of
        None \<Rightarrow> None
      | Some e \<Rightarrow>
          (case errors_As_awserr e of
             Some (code, msg) \<Rightarrow>
               if code = ''NotFound'' then Some (Sentinel ErrNotFound)
               else errors_Join [Some (Sentinel ErrUnexpected), err]
           | None \<Rightarrow> err))"

text \<open>
  utils.go holds the function a second time, with a type assertion in place of
  \<^verbatim>\<open>errors.As\<close>: only an error that is itself a provider error is translated.
\<close>

definition handleS3Error_assert :: "error option \<Rightarrow> error option" where
  "handleS3Error_assert err =
     (case err of
        Some (AwsError code msg) \<Rightarrow>
          if code = ''NotFound'' then Some (Sentinel ErrNotFound)
          else errors_Join [Some (Sentinel ErrUnexpected), err]
      | _ \<Rightarrow> err)"

section \<open>The storage client (interface \<^verbatim>\<open>S3Client\<close>) and the HTTP client\<close>

text \<open>
  The request and response structures of the SDK, with the fields this package sets or
  reads. A listed object is its key. \<open>IsTruncated\<close> is the SDK's flag for a partial page;
  the package never reads it.
\<close>

record PutObjectInput =
  put_ACL :: string
  put_Body :: "8 word list"
  put_ContentType :: string
  put_Bucket :: string
  put_Key :: string

record ListObjectsV2Input =
  list_Bucket :: string
  list_Prefix :: string

record HeadObjectInput =
  head_Bucket :: string
  head_Key :: string

record DeleteObjectInput =
  delete_Bucket :: string
  delete_Key :: string

record Object =
  Key :: string

record ListObjectsV2Output =
  Contents :: "Object list"
  IsTruncated :: bool

text \<open>
  The client is an interface: four methods over a store of type \<open>'s\<close> that they may change.
  A method returns what the Go method returns (the result pointer, where the package reads
  it, and the error, both nilable) and the new store.
\<close>

record 's S3Client =
  PutObjectWithContext :: "PutObjectInput \<Rightarrow> 's \<Rightarrow> error option \<times> 's"
  ListObjectsV2WithContext ::
    "ListObjectsV2Input \<Rightarrow> 's \<Rightarrow> (ListObjectsV2Output option \<times> error option) \<times> 's"
  HeadObjectWithContext :: "HeadObjectInput \<Rightarrow> 's \<Rightarrow> error option \<times> 's"
  DeleteObjectWithContext :: "DeleteObjectInput \<Rightarrow> 's \<Rightarrow> error option \<times> 's"

text \<open>
  The state an operation runs in: the store behind the client, and the calls made on the
  client so far, in order (what the mock of the tests records).
\<close>

datatype s3call =
    PutObjectCall PutObjectInput
  | ListObjectsV2Call ListObjectsV2Input
  | HeadObjectCall HeadObjectInput
  | DeleteObjectCall DeleteObjectInput

record 's world =
  store :: 's
  calls :: "s3call list"

definition call_put :: "'s S3Client \<Rightarrow> PutObjectInput \<Rightarrow> 's world \<Rightarrow> error option \<times> 's world" where
  "call_put c inp w =
     (case PutObjectWithContext c inp (store w) of
        (r, s') \<Rightarrow> (r, \<lparr>store = s', calls = calls w @ [PutObjectCall inp]\<rparr>))"

definition call_list ::
  "'s S3Client \<Rightarrow> ListObjectsV2Input \<Rightarrow> 's world
     \<Rightarrow> (ListObjectsV2Output option \<times> error option) \<times> 's world" where
  "call_list c inp w =
     (case ListObjectsV2WithContext c inp (store w) of
        (r, s') \<Rightarrow> (r, \<lparr>store = s', calls = calls w @ [ListObjectsV2Call inp]\<rparr>))"

definition call_head :: "'s S3Client \<Rightarrow> HeadObjectInput \<Rightarrow> 's world \<Rightarrow> error option \<times> 's world" where
  "call_head c inp w =
     (case HeadObjectWithContext c inp (store w) of
        (r, s') \<Rightarrow> (r, \<lparr>store = s', calls = calls w @ [HeadObjectCall inp]\<rparr>))"

definition call_delete ::
  "'s S3Client \<Rightarrow> DeleteObjectInput \<Rightarrow> 's world \<Rightarrow> error option \<times> 's world" where
  "call_delete c inp w =
     (case DeleteObjectWithContext c inp (store w) of
        (r, s') \<Rightarrow> (r, \<lparr>store = s', calls = calls w @ [DeleteObjectCall inp]\<rparr>))"

text \<open>
  An HTTP response: the declared length (\<^verbatim>\<open>int64\<close>; the transport sets \<open>-1\<close> when the length
  is unknown), the \<^verbatim>\<open>Content-Type\<close> header, and the body. \<open>Body r n\<close> is one
  \<^verbatim>\<open>Read\<close> into a buffer of \<open>n\<close> bytes: the bytes it delivers and its error.
  \<^verbatim>\<open>Get\<close> returns a response pointer and an error, both nilable.
\<close>

record Response =
  ContentLength :: "64 word"
  ContentType :: string
  Body :: "nat \<Rightarrow> 8 word list \<times> error option"

type_synonym httpClient = "string \<Rightarrow> Response option \<times> error option"

text \<open>What a call yields: its return values, or a run-time panic.\<close>

datatype 'a outcome = Return 'a | Panic

section \<open>file\_manager.go: the file manager and its construction\<close>

definition DefaultACL :: string where
  "DefaultACL = ''public-read''"

definition DefaultMaxFileSize :: "64 word" where
  "DefaultMaxFileSize = push_bit 20 64"

record 's FileManager =
  s3 :: "'s S3Client option"
  httpClient :: httpClient
  cdnURL :: string
  bucket :: string
  basePath :: string
  maxFileSize :: "64 word"

text \<open>
  An option is a function that may change the file manager and returns an error
  (\<^verbatim>\<open>func(*FileManager) error\<close>).
\<close>

type_synonym 's Option = "'s FileManager \<Rightarrow> error option \<times> 's FileManager"

definition WithS3Client :: "'s S3Client option \<Rightarrow> 's Option" where
  "WithS3Client client f =
     (if client = None then (Some (Sentinel ErrMissedS3Client), f)
      else (None, f\<lparr>s3 := client\<rparr>))"

definition WithCustomHTTPClient :: "httpClient option \<Rightarrow> 's Option" where
  "WithCustomHTTPClient client f =
     (case client of
        None \<Rightarrow> (Some (Sentinel ErrMissedHTTPClient), f)
      | Some h \<Rightarrow> (None, f\<lparr>httpClient := h\<rparr>))"

definition WithBucketName :: "string \<Rightarrow> 's Option" where
  "WithBucketName bucketName f =
     (if bucketName = [] then (Some (Sentinel ErrMissedBucketName), f)
      else (None, f\<lparr>bucket := bucketName\<rparr>))"

definition WithCDNURL :: "string \<Rightarrow> 's Option" where
  "WithCDNURL cdnURL0 f =
     (let u = strings_Trim cdnURL0 ''/'' in
      if u = [] then (Some (Sentinel ErrMissedCDNURL), f)
      else if \<not> strings_HasPrefix u ''http://'' \<and> \<not> strings_HasPrefix u ''https://''
        then (Some (Sentinel ErrInvalidCDNURL), f)
      else (None, f\<lparr>cdnURL := u\<rparr>))"

definition WithBasePath :: "string \<Rightarrow> 's Option" where
  "WithBasePath basePath0 f = (None, f\<lparr>basePath := strings_Trim basePath0 ''/''\<rparr>)"

definition WithMaxFileSize :: "64 word \<Rightarrow> 's Option" where
  "WithMaxFileSize maxFileSize0 f =
     (None, f\<lparr>maxFileSize := (if sint maxFileSize0 \<le> 0 then DefaultMaxFileSize else maxFileSize0)\<rparr>)"

text \<open>The loop over the options: the first error ends it.\<close>

fun apply_options :: "'s Option list \<Rightarrow> 's FileManager \<Rightarrow> error + 's FileManager" where
  "apply_options [] fm = Inr fm"
| "apply_options (opt # opts) fm =
     (case opt fm of
        (Some err, _) \<Rightarrow> Inl err
      | (None, fm') \<Rightarrow> apply_options opts fm')"

text \<open>
  \<^verbatim>\<open>NewWithOptions\<close>. The first argument stands for \<^verbatim>\<open>http.DefaultClient\<close>, a value of the
  standard library. The fields not set in the initial structure have Go's zero values.
\<close>

definition NewWithOptions ::
  "httpClient \<Rightarrow> 's Option list \<Rightarrow> 's FileManager option \<times> error option" where
  "NewWithOptions http_DefaultClient opt =
     (case apply_options opt
        \<lparr>s3 = None, httpClient = http_DefaultClient, cdnURL = [], bucket = [],
         basePath = ''uploads'', maxFileSize = DefaultMaxFileSize\<rparr> of
        Inl err \<Rightarrow> (None, errors_Join [Some (Sentinel ErrInvalidS3ClientConfig), Some err])
      | Inr fm \<Rightarrow>
          if bucket fm = [] then
            (None, errors_Join [Some (Sentinel ErrInvalidS3ClientConfig),
                                Some (Sentinel ErrMissedBucketName)])
          else if s3 fm = None then
            (None, errors_Join [Some (Sentinel ErrInvalidS3ClientConfig),
                                Some (Sentinel ErrMissedS3Client)])
          else if cdnURL fm = [] then
            (None, errors_Join [Some (Sentinel ErrInvalidS3ClientConfig),
                                Some (Sentinel ErrMissedCDNURL)])
          else (Some fm, None))"

section \<open>file\_manager.go: uploads\<close>

text \<open>\<^verbatim>\<open>fmt.Sprintf("%s/%s/%s", ...)\<close> on three strings is their concatenation with two separators.\<close>

definition fileAbsolutePath :: "'s FileManager \<Rightarrow> string \<Rightarrow> string" where
  "fileAbsolutePath fm filename =
     cdnURL fm @ ''/'' @ basePath fm @ ''/'' @ strings_Trim filename ''/''"

text \<open>
  A method call on the nil client panics; a file manager built by \<open>NewWithOptions\<close> has a
  client.
\<close>

definition Upload ::
  "'s FileManager \<Rightarrow> 8 word list \<Rightarrow> string \<Rightarrow> string \<Rightarrow> 's world
     \<Rightarrow> (string \<times> error option) outcome \<times> 's world" where
  "Upload fm file filename contentType w =
     (case s3 fm of
        None \<Rightarrow> (Panic, w)
      | Some c \<Rightarrow>
          (case call_put c
                  \<lparr>put_ACL = DefaultACL, put_Body = file, put_ContentType = contentType,
                   put_Bucket = bucket fm, put_Key = filename\<rparr> w of
             (Some err, w1) \<Rightarrow>
               (Return ([], errors_Join [Some (Sentinel ErrFailedToUploadFile), Some err]), w1)
           | (None, w1) \<Rightarrow> (Return (fileAbsolutePath fm filename, None), w1)))"

text \<open>
  \<^verbatim>\<open>path.Base\<close>: the last element of a slash-separated path, trailing slashes removed first;
  \<open>''.''\<close> for the empty path and \<open>''/''\<close> for a path of slashes only.
\<close>

definition path_Base :: "string \<Rightarrow> string" where
  "path_Base p =
     (if p = [] then ''.''
      else
        (let p1 = rev (dropWhile (\<lambda>c. c = CHR ''/'') (rev p));
             p2 = rev (takeWhile (\<lambda>c. c \<noteq> CHR ''/'') (rev p1))
         in if p2 = [] then ''/'' else p2))"

text \<open>
  \<^verbatim>\<open>make([]byte, n)\<close> for an \<^verbatim>\<open>int64\<close> length: the run time panics when the length is negative
  or beyond what can be allocated (\<open>maxAlloc\<close>, \<open>2 ^ 48\<close> bytes on the 64-bit platforms);
  otherwise the slice holds \<open>n\<close> zero bytes.
\<close>

definition maxAlloc :: int where
  "maxAlloc = 2 ^ 48"

definition make_bytes :: "64 word \<Rightarrow> 8 word list option" where
  "make_bytes n =
     (if sint n < 0 \<or> maxAlloc < sint n then None else Some (replicate (unat n) 0))"

text \<open>
  One \<^verbatim>\<open>Read\<close> of the body into the buffer: the delivered bytes overwrite the start of the
  buffer, the rest stays as it was. The count that \<^verbatim>\<open>Read\<close> returns is dropped by the caller.
\<close>

definition read_into :: "Response \<Rightarrow> 8 word list \<Rightarrow> 8 word list \<times> error option" where
  "read_into resp buf =
     (case Body resp (length buf) of
        (bytes, err) \<Rightarrow>
          (take (length buf) bytes @ drop (length (take (length buf) bytes)) buf, err))"

definition UploadFromURL ::
  "'s FileManager \<Rightarrow> string \<Rightarrow> 's world \<Rightarrow> (string \<times> error option) outcome \<times> 's world" where
  "UploadFromURL fm fileURL w =
     (case httpClient fm fileURL of
        (_, Some err) \<Rightarrow>
          (Return ([], errors_Join [Some (Sentinel ErrFailedToUploadFileFromURL), Some err]), w)
      | (None, None) \<Rightarrow> (Panic, w)
      | (Some resp, None) \<Rightarrow>
          (case make_bytes (ContentLength resp) of
             None \<Rightarrow> (Panic, w)
           | Some buf0 \<Rightarrow>
               (case read_into resp buf0 of
                  (_, Some err) \<Rightarrow>
                    (Return ([], errors_Join [Some (Sentinel ErrFailedToUploadFileFromURL),
                                              Some err]), w)
                | (buf, None) \<Rightarrow>
                    (case Upload fm buf (path_Base fileURL) (ContentType resp) w of
                       (Panic, w1) \<Rightarrow> (Panic, w1)
                     | (Return (_, Some err), w1) \<Rightarrow>
                         (Return ([], errors_Join [Some (Sentinel ErrFailedToUploadFileFromURL),
                                                   Some err]), w1)
                     | (Return (result, None), w1) \<Rightarrow> (Return (result, None), w1)))))"

section \<open>file\_manager.go: removal\<close>

definition fileExists ::
  "'s FileManager \<Rightarrow> string \<Rightarrow> 's world \<Rightarrow> (bool \<times> error option) outcome \<times> 's world" where
  "fileExists fm filepath w =
     (case s3 fm of
        None \<Rightarrow> (Panic, w)
      | Some c \<Rightarrow>
          (case call_head c \<lparr>head_Bucket = bucket fm, head_Key = filepath\<rparr> w of
             (err, w1) \<Rightarrow>
               (case handleS3Error err of
                  Some err' \<Rightarrow>
                    if errors_Is err' ErrNotFound then (Return (False, None), w1)
                    else (Return (False, errors_Join [Some (Sentinel ErrFailedToCheckIfFileExists),
                                                      Some err']), w1)
                | None \<Rightarrow> (Return (True, None), w1))))"

text \<open>\<^verbatim>\<open>remove\<close> keeps the boolean of \<open>fileExists\<close> and drops its error (\<^verbatim>\<open>exists, _ :=\<close>).\<close>

definition remove :: "'s FileManager \<Rightarrow> string \<Rightarrow> 's world \<Rightarrow> error option outcome \<times> 's world" where
  "remove fm key w =
     (case fileExists fm key w of
        (Panic, w1) \<Rightarrow> (Panic, w1)
      | (Return (exists, _), w1) \<Rightarrow>
          if \<not> exists then (Return None, w1)
          else
            (case s3 fm of
               None \<Rightarrow> (Panic, w1)
             | Some c \<Rightarrow>
                 (case call_delete c \<lparr>delete_Bucket = bucket fm, delete_Key = key\<rparr> w1 of
                    (Some err, w2) \<Rightarrow>
                      (Return (errors_Join [Some (Sentinel ErrFailedToRemoveFile), Some err]), w2)
                  | (None, w2) \<Rightarrow> (Return None, w2))))"

definition Remove :: "'s FileManager \<Rightarrow> string \<Rightarrow> 's world \<Rightarrow> error option outcome \<times> 's world" where
  "Remove fm fileURL w = remove fm (filenameFromURL (cdnURL fm) fileURL) w"

subsection \<open>The task group (\<^verbatim>\<open>golang.org/x/sync/errgroup\<close>)\<close>

text \<open>
  \<^verbatim>\<open>Go\<close> starts each task in a goroutine of its own; \<^verbatim>\<open>Wait\<close> blocks until all of them have
  returned and yields the first non-nil error that a task returned, if any. The context
  derived by \<^verbatim>\<open>WithContext\<close> is dropped by the caller, so a failure cancels no other task.

  The order in which the goroutines run is the scheduler's choice. The model runs the tasks
  one after the other, in the order a schedule gives: \<open>task_order sched n\<close> is the indices
  below \<open>n\<close> in the order of their first occurrence in \<open>sched\<close>, then those that \<open>sched\<close>
  does not mention. It is a permutation of \<open>[0..<n]\<close> for every \<open>sched\<close>, and every
  permutation is the order of some schedule (itself).
\<close>

type_synonym 's task = "'s world \<Rightarrow> error option outcome \<times> 's world"

definition task_order :: "nat list \<Rightarrow> nat \<Rightarrow> nat list" where
  "task_order sched n =
     remdups (filter (\<lambda>i. i < n) sched) @ filter (\<lambda>i. i \<notin> set sched) [0..<n]"

text \<open>
  Running the tasks in an order: the results, in the order in which the tasks finish. A
  panic in a goroutine ends the program.
\<close>

fun run_tasks :: "'s task list \<Rightarrow> nat list \<Rightarrow> 's world \<Rightarrow> error option list outcome \<times> 's world" where
  "run_tasks tasks [] w = (Return [], w)"
| "run_tasks tasks (i # order) w =
     (if i < length tasks then
        (case (tasks ! i) w of
           (Panic, w1) \<Rightarrow> (Panic, w1)
         | (Return r, w1) \<Rightarrow>
             (case run_tasks tasks order w1 of
                (Panic, w2) \<Rightarrow> (Panic, w2)
              | (Return rs, w2) \<Rightarrow> (Return (r # rs), w2)))
      else run_tasks tasks order w)"

text \<open>\<^verbatim>\<open>Wait\<close>: the first non-nil error among the results, in the order they came in.\<close>

definition errgroup_Wait :: "error option list \<Rightarrow> error option" where
  "errgroup_Wait rs = (case filter (\<lambda>r. r \<noteq> None) rs of [] \<Rightarrow> None | r # _ \<Rightarrow> r)"

subsection \<open>Removal of a directory\<close>

text \<open>
  The loop hands each task its key by value (the closure is built by a call that receives
  \<^verbatim>\<open>*file.Key\<close>), so the tasks are the removals of the listed keys, in the order of the listing.
  The schedule \<open>sched\<close> is the one the goroutines happen to follow.
\<close>

definition RemoveFilesFromDirectory ::
  "'s FileManager \<Rightarrow> nat list \<Rightarrow> string \<Rightarrow> 's world \<Rightarrow> error option outcome \<times> 's world" where
  "RemoveFilesFromDirectory fm sched dir w =
     (case s3 fm of
        None \<Rightarrow> (Panic, w)
      | Some c \<Rightarrow>
          (case call_list c \<lparr>list_Bucket = bucket fm, list_Prefix = strings_Trim dir ''/''\<rparr> w of
             ((resp, err), w1) \<Rightarrow>
               (case handleS3Error err of
                  Some err' \<Rightarrow>
                    if errors_Is err' ErrNotFound then (Return None, w1)
                    else (Return (errors_Join [Some (Sentinel ErrFailedToRemoveFiles), Some err']), w1)
                | None \<Rightarrow>
                    (case resp of
                       None \<Rightarrow> (Panic, w1)
                     | Some r \<Rightarrow>
                         (case run_tasks (map (\<lambda>file. remove fm (Key file)) (Contents r))
                                 (task_order sched (length (Contents r))) w1 of
                            (Panic, w2) \<Rightarrow> (Panic, w2)
                          | (Return rs, w2) \<Rightarrow>
                              (case errgroup_Wait rs of
                                 Some err2 \<Rightarrow>
                                   (Return (errors_Join [Some (Sentinel ErrFailedToRemoveFiles),
                                                         Some err2]), w2)
                               | None \<Rightarrow> (Return None, w2)))))))"

section \<open>Observations: calls, errors, options\<close>

text \<open>
  The keys that the recorded calls probed (\<^verbatim>\<open>HeadObject\<close>) and deleted
  (\<^verbatim>\<open>DeleteObject\<close>), in the order of the calls.
\<close>

definition probed_keys :: "s3call list \<Rightarrow> string list" where
  "probed_keys cs =
     List.map_filter (\<lambda>c. case c of HeadObjectCall inp \<Rightarrow> Some (head_Key inp) | _ \<Rightarrow> None) cs"

definition deleted_keys :: "s3call list \<Rightarrow> string list" where
  "deleted_keys cs =
     List.map_filter (\<lambda>c. case c of DeleteObjectCall inp \<Rightarrow> Some (delete_Key inp) | _ \<Rightarrow> None) cs"

definition is_removal_call :: "s3call \<Rightarrow> bool" where
  "is_removal_call c =
     (case c of HeadObjectCall _ \<Rightarrow> True | DeleteObjectCall _ \<Rightarrow> True | _ \<Rightarrow> False)"

text \<open>Whether an error holds another one somewhere in its tree.\<close>

fun carries :: "error \<Rightarrow> error \<Rightarrow> bool" where
  "carries (Wrapped m e) x = (Wrapped m e = x \<or> carries e x)"
| "carries (Joined es) x = (Joined es = x \<or> list_ex (\<lambda>e. carries e x) es)"
| "carries e x = (e = x)"

text \<open>
  The fields of \<^verbatim>\<open>FileManager\<close> are unexported, so the options that can set them are the
  six that options.go builds. \<open>option_arg\<close> names such an option by its constructor and
  argument; \<open>option_of\<close> is the option itself.
\<close>

datatype 's option_arg =
    ArgS3Client "'s S3Client option"
  | ArgCustomHTTPClient "httpClient option"
  | ArgBucketName string
  | ArgCDNURL string
  | ArgBasePath string
  | ArgMaxFileSize "64 word"

fun option_of :: "'s option_arg \<Rightarrow> 's Option" where
  "option_of (ArgS3Client client) = WithS3Client client"
| "option_of (ArgCustomHTTPClient client) = WithCustomHTTPClient client"
| "option_of (ArgBucketName bucketName) = WithBucketName bucketName"
| "option_of (ArgCDNURL u) = WithCDNURL u"
| "option_of (ArgBasePath p) = WithBasePath p"
| "option_of (ArgMaxFileSize n) = WithMaxFileSize n"

text \<open>
  The conditions under which construction is to fail, in the words of the specification: an
  option is rejected for an empty bucket name, a nil storage client, a CDN URL that is empty
  after trimming the separators or then lacks the \<open>http://\<close> or \<open>https://\<close> prefix
  (and for a nil HTTP client); a required field is missing when no option sets it.
  \<open>config_fault\<close> is the cause to report: that of the first rejected option, else the first
  missing field among bucket, client and CDN URL.
\<close>

definition http_origin :: "string \<Rightarrow> bool" where
  "http_origin u \<longleftrightarrow> u \<noteq> [] \<and> (strings_HasPrefix u ''http://'' \<or> strings_HasPrefix u ''https://'')"

fun rejected :: "'s option_arg \<Rightarrow> sentinel option" where
  "rejected (ArgS3Client client) = (case client of None \<Rightarrow> Some ErrMissedS3Client | Some _ \<Rightarrow> None)"
| "rejected (ArgCustomHTTPClient client) =
     (case client of None \<Rightarrow> Some ErrMissedHTTPClient | Some _ \<Rightarrow> None)"
| "rejected (ArgBucketName bucketName) = (if bucketName = [] then Some ErrMissedBucketName else None)"
| "rejected (ArgCDNURL u) =
     (if strings_Trim u ''/'' = [] then Some ErrMissedCDNURL
      else if \<not> http_origin (strings_Trim u ''/'') then Some ErrInvalidCDNURL
      else None)"
| "rejected (ArgBasePath p) = None"
| "rejected (ArgMaxFileSize n) = None"

fun sets_bucket :: "'s option_arg \<Rightarrow> bool" where
  "sets_bucket (ArgBucketName _) = True"
| "sets_bucket _ = False"

fun sets_client :: "'s option_arg \<Rightarrow> bool" where
  "sets_client (ArgS3Client _) = True"
| "sets_client _ = False"

fun sets_cdn :: "'s option_arg \<Rightarrow> bool" where
  "sets_cdn (ArgCDNURL _) = True"
| "sets_cdn _ = False"

definition config_fault :: "'s option_arg list \<Rightarrow> sentinel option" where
  "config_fault args =
     (case List.map_filter rejected args of
        cause # _ \<Rightarrow> Some cause
      | [] \<Rightarrow>
          if \<not> list_ex sets_bucket args then Some ErrMissedBucketName
          else if \<not> list_ex sets_client args then Some ErrMissedS3Client
          else if \<not> list_ex sets_cdn args then Some ErrMissedCDNURL
          else None)"

section \<open>Clients for concrete scenarios\<close>

text \<open>
  An in-memory object store: the store is the list of the keys it holds. A listing returns
  the keys with the prefix, at most \<open>page\<close> of them, and flags a partial page. A probe of an
  absent key fails with the provider's \<open>NotFound\<close> code.
\<close>

definition mem_client :: "nat \<Rightarrow> string list S3Client" where
  "mem_client page =
     \<lparr>PutObjectWithContext =
        (\<lambda>inp ks. (None, if put_Key inp \<in> set ks then ks else ks @ [put_Key inp])),
      ListObjectsV2WithContext =
        (\<lambda>inp ks.
           let found = filter (\<lambda>k. strings_HasPrefix k (list_Prefix inp)) ks
           in ((Some \<lparr>Contents = map (\<lambda>k. \<lparr>Key = k\<rparr>) (take page found),
                      IsTruncated = (page < length found)\<rparr>, None), ks)),
      HeadObjectWithContext =
        (\<lambda>inp ks. (if head_Key inp \<in> set ks then None
                    else Some (AwsError ''NotFound'' ''Not Found''), ks)),
      DeleteObjectWithContext = (\<lambda>inp ks. (None, removeAll (delete_Key inp) ks))\<rparr>"

text \<open>
  A scripted client without a store, as the mock of the tests: the listing and the answers
  to probes and deletions are given per key.
\<close>

definition scripted_client ::
  "ListObjectsV2Output option \<times> error option \<Rightarrow> (string \<Rightarrow> error option)
     \<Rightarrow> (string \<Rightarrow> error option) \<Rightarrow> unit S3Client" where
  "scripted_client on_list on_head on_delete =
     \<lparr>PutObjectWithContext = (\<lambda>inp u. (None, u)),
      ListObjectsV2WithContext = (\<lambda>inp u. (on_list, u)),
      HeadObjectWithContext = (\<lambda>inp u. (on_head (head_Key inp), u)),
      DeleteObjectWithContext = (\<lambda>inp u. (on_delete (delete_Key inp), u))\<rparr>"

definition listing :: "string list \<Rightarrow> ListObjectsV2Output option \<times> error option" where
  "listing ks = (Some \<lparr>Contents = map (\<lambda>k. \<lparr>Key = k\<rparr>) ks, IsTruncated = False\<rparr>, None)"

definition always_ok :: "string \<Rightarrow> error option" where
  "always_ok k = None"

definition no_http :: httpClient where
  "no_http url = (None, Some (Plain ''no network''))"

text \<open>A file manager as the tests configure it, over a given client.\<close>

definition test_fm :: "'s S3Client \<Rightarrow> httpClient \<Rightarrow> 's FileManager" where
  "test_fm c h =
     \<lparr>s3 = Some c, httpClient = h, cdnURL = ''https://cdn.example.com'', bucket = ''test-bucket'',
      basePath = ''uploads'', maxFileSize = push_bit 20 32\<rparr>"

definition w0 :: "'s \<Rightarrow> 's world" where
  "w0 s = \<lparr>store = s, calls = []\<rparr>"

text \<open>An HTTP client whose response has no declared length, as for a chunked body.\<close>

definition http_unknown_length :: httpClient where
  "http_unknown_length url =
     (Some \<lparr>ContentLength = - 1, ContentType = ''text/plain'',
            Body = (\<lambda>n. (take n [116, 101, 115, 116], None))\<rparr>, None)"

text \<open>The clients and configurations of the scenarios below.\<close>

definition reset_on_probe :: "unit S3Client" where
  "reset_on_probe = scripted_client (listing [''a.txt'']) (\<lambda>k. Some (Plain ''connection reset'')) always_ok"

definition not_found_on_list :: "unit S3Client" where
  "not_found_on_list = scripted_client (None, Some (AwsError ''NotFound'' ''Not Found'')) always_ok always_ok"

definition empty_listing :: "unit S3Client" where
  "empty_listing = scripted_client (listing []) always_ok always_ok"

definition locked :: "string \<Rightarrow> error option" where
  "locked k = Some (Plain (k @ '' is locked''))"

definition all_locked :: "unit S3Client" where
  "all_locked = scripted_client (listing [''dir/a'', ''dir/b'']) always_ok locked"

definition three_keys :: "unit S3Client" where
  "three_keys = scripted_client (listing [''dir/a'', ''dir/b'', ''dir/c'']) always_ok always_ok"

definition empty_base_fm :: "string list FileManager" where
  "empty_base_fm =
     \<lparr>s3 = Some (mem_client 1000), httpClient = no_http, cdnURL = ''https://cdn.example.com'',
      bucket = ''test-bucket'', basePath = [], maxFileSize = DefaultMaxFileSize\<rparr>"

definition good_args :: "string list option_arg list" where
  "good_args =
     [ArgS3Client (Some (mem_client 1000)), ArgBucketName ''test-bucket'',
      ArgCDNURL ''https://cdn.example.com'', ArgBasePath ''/uploads'',
      ArgMaxFileSize (push_bit 20 32)]"

section \<open>Properties\<close>

subsection \<open>The error translator\<close>

lemma map_filter_Nil_iff: "List.map_filter f xs = [] \<longleftrightarrow> (\<forall>x\<in>set xs. f x = None)"
  by (induction xs) (simp_all add: List.map_filter_simps split: option.splits)

lemma errors_As_awserr_None_iff: "errors_As_awserr e = None \<longleftrightarrow> \<not> has_awserr e"
proof (induction e)
  case (Joined es)
  have "List.map_filter (\<lambda>r. r) (map errors_As_awserr es) = [] \<longleftrightarrow> \<not> list_ex has_awserr es"
    using Joined by (simp add: map_filter_Nil_iff list_ex_iff)
  then show ?case
    by (cases "List.map_filter (\<lambda>r. r) (map errors_As_awserr es)") simp_all
qed simp_all

lemma errors_Join_two [simp]: "errors_Join [Some a, Some b] = Some (Joined [a, b])"
  by (simp add: errors_Join_def List.map_filter_simps)

lemma handleS3Error_Some_not_None: "handleS3Error (Some e) \<noteq> None"
  by (simp add: handleS3Error_def split: option.splits)

lemma handleS3Error_None_iff: "handleS3Error err = None \<longleftrightarrow> err = None"
  by (cases err) (simp_all add: handleS3Error_def split: option.splits)

text \<open>The two versions of the translator agree on every error that wraps no other.\<close>

lemma handleS3Error_assert_agrees:
  "handleS3Error_assert None = handleS3Error None"
  "handleS3Error_assert (Some (AwsError code msg)) = handleS3Error (Some (AwsError code msg))"
  "handleS3Error_assert (Some (Sentinel s)) = handleS3Error (Some (Sentinel s))"
  "handleS3Error_assert (Some (Plain m)) = handleS3Error (Some (Plain m))"
  by (simp_all add: handleS3Error_assert_def handleS3Error_def)

text \<open>
  C4. The translator recognises a provider error with \<^verbatim>\<open>errors.As\<close>, that is anywhere in the
  chain of the error, and reads the code of the first one it finds. When that code is the
  string \<open>NotFound\<close> the result is the package's \<open>ErrNotFound\<close>; with any other code the
  result joins \<open>ErrUnexpected\<close> with the error it was given; an error that holds no provider
  error comes back as it is, and so does nil. In particular, for an error that is itself a
  provider error the code read is its own.
\<close>

theorem handleS3Error_translation:
  "(has_awserr e \<and> map_option fst (errors_As_awserr e) = Some ''NotFound''
      \<longrightarrow> handleS3Error (Some e) = Some (Sentinel ErrNotFound))
   \<and> (has_awserr e \<and> map_option fst (errors_As_awserr e) \<noteq> Some ''NotFound''
      \<longrightarrow> handleS3Error (Some e) = Some (Joined [Sentinel ErrUnexpected, e])
          \<and> errors_Is (Joined [Sentinel ErrUnexpected, e]) ErrUnexpected)
   \<and> (\<not> has_awserr e \<longrightarrow> handleS3Error (Some e) = Some e)
   \<and> handleS3Error None = None
   \<and> errors_As_awserr (AwsError code msg) = Some (code, msg)
   \<and> has_awserr (AwsError code msg)"
proof -
  have a: "has_awserr e \<Longrightarrow> \<exists>c m. errors_As_awserr e = Some (c, m)"
    using errors_As_awserr_None_iff [of e] by (cases "errors_As_awserr e") auto
  have b: "\<not> has_awserr e \<Longrightarrow> errors_As_awserr e = None"
    by (simp add: errors_As_awserr_None_iff)
  show ?thesis
    using a b by (auto simp: handleS3Error_def)
qed

theorem handleS3Error_translation_witness:
  "handleS3Error (Some (AwsError ''NotFound'' ''Not Found'')) = Some (Sentinel ErrNotFound)
   \<and> handleS3Error (Some (AwsError ''AccessDenied'' ''Access Denied''))
       = Some (Joined [Sentinel ErrUnexpected, AwsError ''AccessDenied'' ''Access Denied''])
   \<and> handleS3Error (Some (Wrapped ''head'' (AwsError ''NotFound'' ''Not Found'')))
       = Some (Sentinel ErrNotFound)
   \<and> handleS3Error (Some (Plain ''connection reset'')) = Some (Plain ''connection reset'')"
  using handleS3Error_translation [of "AwsError ''NotFound'' ''Not Found''"]
    handleS3Error_translation [of "AwsError ''AccessDenied'' ''Access Denied''"]
    handleS3Error_translation [of "Wrapped ''head'' (AwsError ''NotFound'' ''Not Found'')"]
    handleS3Error_translation [of "Plain ''connection reset''"]
  by simp

subsection \<open>Upload from a URL\<close>

text \<open>
  C10. When the HTTP client returns a response whose declared length is negative, the
  allocation of the read buffer panics: \<open>UploadFromURL\<close> does not return (neither a URL
  nor an error joined with \<open>ErrFailedToUploadFileFromURL\<close>), and no call reaches the
  storage client.
\<close>

theorem UploadFromURL_negative_length_panics:
  assumes "httpClient fm fileURL = (Some resp, None)"
    and "sint (ContentLength resp) < 0"
  shows "UploadFromURL fm fileURL w = (Panic, w)"
  using assms by (simp add: UploadFromURL_def make_bytes_def)

theorem UploadFromURL_negative_length_panics_witness:
  "httpClient (test_fm (mem_client 1000) http_unknown_length) ''https://example.com/testfile.txt''
     = http_unknown_length ''https://example.com/testfile.txt''
   \<and> sint (ContentLength (the (fst (http_unknown_length ''https://example.com/testfile.txt'')))) = - 1
   \<and> UploadFromURL (test_fm (mem_client 1000) http_unknown_length)
        ''https://example.com/testfile.txt'' (w0 []) = (Panic, w0 [])"
proof -
  have h: "httpClient (test_fm (mem_client 1000) http_unknown_length)
             ''https://example.com/testfile.txt''
           = (Some \<lparr>ContentLength = - 1, ContentType = ''text/plain'',
                    Body = (\<lambda>n. (take n [116, 101, 115, 116], None))\<rparr>, None)"
    by (simp add: test_fm_def http_unknown_length_def)
  have n: "sint (ContentLength \<lparr>ContentLength = - 1, ContentType = ''text/plain'',
                    Body = (\<lambda>n. (take n [116, 101, 115, 116], None))\<rparr>) < 0"
    by simp
  show ?thesis
    using UploadFromURL_negative_length_panics [OF h n, of "w0 []"]
    by (simp add: test_fm_def http_unknown_length_def)
qed

subsection \<open>Calls on the client\<close>

lemma call_head_eq: "call_head c inp w = (fst (HeadObjectWithContext c inp (store w)),
   \<lparr>store = snd (HeadObjectWithContext c inp (store w)), calls = calls w @ [HeadObjectCall inp]\<rparr>)"
  by (simp add: call_head_def split: prod.splits)

lemma call_delete_eq: "call_delete c inp w = (fst (DeleteObjectWithContext c inp (store w)),
   \<lparr>store = snd (DeleteObjectWithContext c inp (store w)), calls = calls w @ [DeleteObjectCall inp]\<rparr>)"
  by (simp add: call_delete_def split: prod.splits)

lemma call_list_eq: "call_list c inp w = (fst (ListObjectsV2WithContext c inp (store w)),
   \<lparr>store = snd (ListObjectsV2WithContext c inp (store w)), calls = calls w @ [ListObjectsV2Call inp]\<rparr>)"
  by (simp add: call_list_def split: prod.splits)

lemma call_put_eq: "call_put c inp w = (fst (PutObjectWithContext c inp (store w)),
   \<lparr>store = snd (PutObjectWithContext c inp (store w)), calls = calls w @ [PutObjectCall inp]\<rparr>)"
  by (simp add: call_put_def split: prod.splits)

lemma handleS3Error_nil [simp]: "handleS3Error None = None"
  by (simp add: handleS3Error_def)

lemma probed_keys_simps [simp]:
  "probed_keys [] = []"
  "probed_keys (HeadObjectCall h # cs) = head_Key h # probed_keys cs"
  "probed_keys (DeleteObjectCall d # cs) = probed_keys cs"
  "probed_keys (ListObjectsV2Call l # cs) = probed_keys cs"
  "probed_keys (PutObjectCall p # cs) = probed_keys cs"
  "probed_keys (xs @ ys) = probed_keys xs @ probed_keys ys"
  by (simp_all add: probed_keys_def List.map_filter_def)

lemma deleted_keys_simps [simp]:
  "deleted_keys [] = []"
  "deleted_keys (HeadObjectCall h # cs) = deleted_keys cs"
  "deleted_keys (DeleteObjectCall d # cs) = delete_Key d # deleted_keys cs"
  "deleted_keys (ListObjectsV2Call l # cs) = deleted_keys cs"
  "deleted_keys (PutObjectCall p # cs) = deleted_keys cs"
  "deleted_keys (xs @ ys) = deleted_keys xs @ deleted_keys ys"
  by (simp_all add: deleted_keys_def List.map_filter_def)

lemmas scenario_defs = test_fm_def w0_def scripted_client_def listing_def always_ok_def
  call_head_eq call_delete_eq call_list_eq call_put_eq
  RemoveFilesFromDirectory_def remove_def fileExists_def handleS3Error_def
  strings_Trim_def task_order_def errgroup_Wait_def

subsection \<open>Removal of one object\<close>

text \<open>
  With a client in place, \<open>fileExists\<close> and \<open>remove\<close> never panic; what they return and
  the calls they make depend on the answers of the client only.
\<close>

lemma fileExists_eq:
  assumes "s3 fm = Some c"
  shows "fileExists fm key w =
     (Return (case fst (HeadObjectWithContext c \<lparr>head_Bucket = bucket fm, head_Key = key\<rparr> (store w)) of
                None \<Rightarrow> (True, None)
              | Some e \<Rightarrow>
                  (case handleS3Error (Some e) of
                     None \<Rightarrow> (True, None)
                   | Some e' \<Rightarrow> if errors_Is e' ErrNotFound then (False, None)
                       else (False, Some (Joined [Sentinel ErrFailedToCheckIfFileExists, e'])))),
      \<lparr>store = snd (HeadObjectWithContext c \<lparr>head_Bucket = bucket fm, head_Key = key\<rparr> (store w)),
       calls = calls w @ [HeadObjectCall \<lparr>head_Bucket = bucket fm, head_Key = key\<rparr>]\<rparr>)"
  using assms
  by (auto simp: fileExists_def call_head_eq handleS3Error_None_iff split: option.splits)

lemma remove_eq:
  assumes "s3 fm = Some c"
  shows "remove fm key w =
     (let hd_in = \<lparr>head_Bucket = bucket fm, head_Key = key\<rparr>;
          del_in = \<lparr>delete_Bucket = bucket fm, delete_Key = key\<rparr>;
          (herr, s1) = HeadObjectWithContext c hd_in (store w)
      in if herr \<noteq> None then (Return None, \<lparr>store = s1, calls = calls w @ [HeadObjectCall hd_in]\<rparr>)
         else
           (let (derr, s2) = DeleteObjectWithContext c del_in s1
            in (Return (case derr of None \<Rightarrow> None
                        | Some e \<Rightarrow> Some (Joined [Sentinel ErrFailedToRemoveFile, e])),
                \<lparr>store = s2, calls = calls w @ [HeadObjectCall hd_in, DeleteObjectCall del_in]\<rparr>)))"
  using assms
  by (auto simp: remove_def fileExists_eq call_delete_eq Let_def handleS3Error_None_iff
      split: option.splits prod.splits)

lemma remove_effect:
  assumes "s3 fm = Some c"
  shows "\<exists>r w' cs. remove fm key w = (Return r, w') \<and> calls w' = calls w @ cs
           \<and> probed_keys cs = [key] \<and> (deleted_keys cs = [] \<or> deleted_keys cs = [key])
           \<and> list_all is_removal_call cs
           \<and> (r = None \<or> (\<exists>d. r = Some (Joined [Sentinel ErrFailedToRemoveFile, d])))"
  by (auto simp: remove_eq [OF assms] Let_def is_removal_call_def split: prod.splits option.splits)

lemma remove_probe_failure:
  assumes "s3 fm = Some c"
    and "HeadObjectWithContext c \<lparr>head_Bucket = bucket fm, head_Key = key\<rparr> (store w) = (Some e, s1)"
  shows "remove fm key w =
           (Return None,
            \<lparr>store = s1, calls = calls w @ [HeadObjectCall \<lparr>head_Bucket = bucket fm, head_Key = key\<rparr>]\<rparr>)"
  using assms(2) by (simp add: remove_eq [OF assms(1)])

text \<open>
  C5. The claim: when the existence check of a removal fails with an error other than
  \<open>ErrNotFound\<close>, the error reaches the caller of the removal. In the code, \<open>fileExists\<close>
  does build the error (joined with \<open>ErrFailedToCheckIfFileExists\<close>), but \<open>remove\<close> drops
  it: for the key \<open>a.txt\<close> and a probe that fails with a transport error, \<open>remove\<close>
  returns nil after the probe alone, without a deletion.
\<close>

theorem remove_drops_probe_error:
  "fileExists (test_fm reset_on_probe no_http) ''a.txt'' (w0 ())
     = (Return (False, Some (Joined [Sentinel ErrFailedToCheckIfFileExists, Plain ''connection reset''])),
        \<lparr>store = (), calls = [HeadObjectCall \<lparr>head_Bucket = ''test-bucket'', head_Key = ''a.txt''\<rparr>]\<rparr>)
   \<and> remove (test_fm reset_on_probe no_http) ''a.txt'' (w0 ())
     = (Return None,
        \<lparr>store = (), calls = [HeadObjectCall \<lparr>head_Bucket = ''test-bucket'', head_Key = ''a.txt''\<rparr>]\<rparr>)"
  by (simp add: remove_def fileExists_def test_fm_def reset_on_probe_def scripted_client_def call_head_eq w0_def handleS3Error_def)

subsection \<open>Removal of a directory\<close>

text \<open>
  The tasks of a listing, run in any order: none panics, each makes one probe of its own key
  and at most one deletion of that key, and each result is nil or \<open>ErrFailedToRemoveFile\<close>
  joined with the error of the deletion.
\<close>

lemma run_tasks_remove:
  assumes "s3 fm = Some c"
  shows "\<exists>rs w' cs. run_tasks (map (\<lambda>file. remove fm (Key file)) files) order w = (Return rs, w')
           \<and> calls w' = calls w @ cs
           \<and> length rs = length (filter (\<lambda>i. i < length files) order)
           \<and> probed_keys cs = map (\<lambda>i. Key (files ! i)) (filter (\<lambda>i. i < length files) order)
           \<and> mset (deleted_keys cs) \<subseteq># mset (probed_keys cs)
           \<and> list_all is_removal_call cs
           \<and> (\<forall>r\<in>set rs. r = None \<or> (\<exists>d. r = Some (Joined [Sentinel ErrFailedToRemoveFile, d])))"
proof (induction order arbitrary: w)
  case Nil
  show ?case by simp
next
  case (Cons i order)
  show ?case
  proof (cases "i < length files")
    case False
    then show ?thesis using Cons [of w] by simp
  next
    case True
    obtain r w1 cs1 where one: "remove fm (Key (files ! i)) w = (Return r, w1)"
      "calls w1 = calls w @ cs1" "probed_keys cs1 = [Key (files ! i)]"
      "deleted_keys cs1 = [] \<or> deleted_keys cs1 = [Key (files ! i)]"
      "list_all is_removal_call cs1"
      "r = None \<or> (\<exists>d. r = Some (Joined [Sentinel ErrFailedToRemoveFile, d]))"
      using remove_effect [OF assms, of "Key (files ! i)" w] by blast
    obtain rs w2 cs2 where
      rest: "run_tasks (map (\<lambda>file. remove fm (Key file)) files) order w1 = (Return rs, w2)"
      "calls w2 = calls w1 @ cs2"
      "length rs = length (filter (\<lambda>i. i < length files) order)"
      "probed_keys cs2 = map (\<lambda>i. Key (files ! i)) (filter (\<lambda>i. i < length files) order)"
      "mset (deleted_keys cs2) \<subseteq># mset (probed_keys cs2)"
      "list_all is_removal_call cs2"
      "\<forall>r\<in>set rs. r = None \<or> (\<exists>d. r = Some (Joined [Sentinel ErrFailedToRemoveFile, d]))"
      using Cons [of w1] by blast
    have run: "run_tasks (map (\<lambda>file. remove fm (Key file)) files) (i # order) w
                 = (Return (r # rs), w2)"
      using True one(1) rest(1) by simp
    have del: "mset (deleted_keys (cs1 @ cs2)) \<subseteq># mset (probed_keys (cs1 @ cs2))"
    proof -
      have "mset (deleted_keys cs1) \<subseteq># mset (probed_keys cs1)"
        using one(3,4) by auto
      then show ?thesis
        using rest(5) by (simp add: subset_mset.add_mono)
    qed
    show ?thesis
      apply (rule exI [of _ "r # rs"], rule exI [of _ w2], rule exI [of _ "cs1 @ cs2"])
      using True run one rest del by simp
  qed
qed

lemma task_order_perm: "mset (task_order sched n) = mset [0..<n]"
proof -
  have d: "distinct (task_order sched n)"
    by (auto simp: task_order_def)
  have s: "set (task_order sched n) = set [0..<n]"
    by (auto simp: task_order_def)
  show ?thesis
    using d s by (metis distinct_upt set_eq_iff_mset_eq_distinct)
qed

lemma task_order_bound: "filter (\<lambda>i. i < n) (task_order sched n) = task_order sched n"
  by (rule filter_True) (auto simp: task_order_def)

lemma mset_map_nth_perm:
  assumes "mset order = mset [0..<length xs]"
  shows "mset (map (\<lambda>i. f (xs ! i)) order) = mset (map f xs)"
proof -
  have "mset (map (\<lambda>i. f (xs ! i)) order) = image_mset (\<lambda>i. f (xs ! i)) (mset order)"
    by (rule mset_map)
  also have "\<dots> = image_mset (\<lambda>i. f (xs ! i)) (mset [0..<length xs])"
    by (simp only: assms)
  also have "\<dots> = mset (map (\<lambda>i. f (xs ! i)) [0..<length xs])"
    by (rule mset_map [symmetric])
  also have "map (\<lambda>i. f (xs ! i)) [0..<length xs] = map f xs"
    by (rule nth_equalityI) simp_all
  finally show ?thesis .
qed

text \<open>
  C3. For every prefix: when the listing fails with an error that the translator turns into
  \<open>ErrNotFound\<close>, or succeeds with no objects, \<open>RemoveFilesFromDirectory\<close> returns nil,
  having made the listing call and no other.
\<close>

theorem RemoveFilesFromDirectory_nothing_to_remove:
  assumes "s3 fm = Some c"
    and "ListObjectsV2WithContext c \<lparr>list_Bucket = bucket fm, list_Prefix = strings_Trim dir ''/''\<rparr>
           (store w) = ((resp, err), s1)"
    and "(\<exists>e'. err \<noteq> None \<and> handleS3Error err = Some e' \<and> errors_Is e' ErrNotFound)
         \<or> (err = None \<and> (\<exists>r. resp = Some r \<and> Contents r = []))"
  shows "RemoveFilesFromDirectory fm sched dir w =
           (Return None,
            \<lparr>store = s1,
             calls = calls w @ [ListObjectsV2Call \<lparr>list_Bucket = bucket fm,
                                                  list_Prefix = strings_Trim dir ''/''\<rparr>]\<rparr>)"
  using assms
  by (auto simp: RemoveFilesFromDirectory_def call_list_eq task_order_def errgroup_Wait_def
        handleS3Error_None_iff split: option.splits)

theorem RemoveFilesFromDirectory_nothing_to_remove_witness:
  "RemoveFilesFromDirectory (test_fm not_found_on_list no_http) [] ''/missing/'' (w0 ()) =
     (Return None,
      \<lparr>store = (), calls = [ListObjectsV2Call \<lparr>list_Bucket = ''test-bucket'', list_Prefix = ''missing''\<rparr>]\<rparr>)
   \<and> RemoveFilesFromDirectory (test_fm empty_listing no_http) [] ''/empty/'' (w0 ()) =
     (Return None,
      \<lparr>store = (), calls = [ListObjectsV2Call \<lparr>list_Bucket = ''test-bucket'', list_Prefix = ''empty''\<rparr>]\<rparr>)"
proof -
  have a1: "s3 (test_fm not_found_on_list no_http) = Some not_found_on_list"
    by (simp add: test_fm_def)
  have a2: "ListObjectsV2WithContext not_found_on_list
              \<lparr>list_Bucket = bucket (test_fm not_found_on_list no_http),
               list_Prefix = strings_Trim ''/missing/'' ''/''\<rparr> (store (w0 ()))
            = ((None, Some (AwsError ''NotFound'' ''Not Found'')), ())"
    by (simp add: not_found_on_list_def scripted_client_def)
  have a3: "(\<exists>e'. Some (AwsError ''NotFound'' ''Not Found'') \<noteq> None
               \<and> handleS3Error (Some (AwsError ''NotFound'' ''Not Found'')) = Some e'
               \<and> errors_Is e' ErrNotFound)
            \<or> (Some (AwsError ''NotFound'' ''Not Found'') = None
                \<and> (\<exists>r. (None :: ListObjectsV2Output option) = Some r \<and> Contents r = []))"
    by (simp add: handleS3Error_def)
  have b1: "s3 (test_fm empty_listing no_http) = Some empty_listing"
    by (simp add: test_fm_def)
  have b2: "ListObjectsV2WithContext empty_listing
              \<lparr>list_Bucket = bucket (test_fm empty_listing no_http),
               list_Prefix = strings_Trim ''/empty/'' ''/''\<rparr> (store (w0 ()))
            = ((Some \<lparr>Contents = [], IsTruncated = False\<rparr>, None), ())"
    by (simp add: empty_listing_def scripted_client_def listing_def)
  have b3: "(\<exists>e'. (None :: error option) \<noteq> None \<and> handleS3Error None = Some e'
               \<and> errors_Is e' ErrNotFound)
            \<or> ((None :: error option) = None
                \<and> (\<exists>r. Some \<lparr>Contents = [], IsTruncated = False\<rparr> = Some r \<and> Contents r = []))"
    by simp
  show ?thesis
    using RemoveFilesFromDirectory_nothing_to_remove [OF a1 a2 a3, of "[]"]
      RemoveFilesFromDirectory_nothing_to_remove [OF b1 b2 b3, of "[]"]
    by (simp add: test_fm_def w0_def strings_Trim_def)
qed

text \<open>
  C2. For every listing that the list call returns, under every schedule:
  \<open>RemoveFilesFromDirectory\<close> returns, and after the listing call the client sees only probes
  and deletions. The probed keys are the listed keys, each task probing the key at its own
  index of the listing: as many probes as listed objects, the same keys with the same
  multiplicities (so pairwise distinct when the listed keys are), and every deletion is of a
  listed key, at most once per task.
\<close>

theorem RemoveFilesFromDirectory_one_task_per_listed_key:
  assumes "s3 fm = Some c"
    and "ListObjectsV2WithContext c \<lparr>list_Bucket = bucket fm, list_Prefix = strings_Trim dir ''/''\<rparr>
           (store w) = ((Some resp, None), s1)"
  shows "\<exists>res w' cs.
           RemoveFilesFromDirectory fm sched dir w = (Return res, w')
           \<and> calls w' = calls w @ ListObjectsV2Call \<lparr>list_Bucket = bucket fm,
                                     list_Prefix = strings_Trim dir ''/''\<rparr> # cs
           \<and> list_all is_removal_call cs
           \<and> probed_keys cs = map (\<lambda>i. Key (Contents resp ! i))
                                  (task_order sched (length (Contents resp)))
           \<and> length (probed_keys cs) = length (Contents resp)
           \<and> mset (probed_keys cs) = mset (map Key (Contents resp))
           \<and> mset (deleted_keys cs) \<subseteq># mset (map Key (Contents resp))
           \<and> (distinct (map Key (Contents resp)) \<longrightarrow> distinct (probed_keys cs))"
proof -
  let ?inp = "\<lparr>list_Bucket = bucket fm, list_Prefix = strings_Trim dir ''/''\<rparr>"
  let ?w1 = "\<lparr>store = s1, calls = calls w @ [ListObjectsV2Call ?inp]\<rparr>"
  let ?n = "length (Contents resp)"
  obtain rs w2 cs where
    run: "run_tasks (map (\<lambda>file. remove fm (Key file)) (Contents resp)) (task_order sched ?n) ?w1
            = (Return rs, w2)"
    and cs: "calls w2 = calls ?w1 @ cs"
      "probed_keys cs = map (\<lambda>i. Key (Contents resp ! i))
                          (filter (\<lambda>i. i < ?n) (task_order sched ?n))"
      "mset (deleted_keys cs) \<subseteq># mset (probed_keys cs)"
      "list_all is_removal_call cs"
    using run_tasks_remove [OF assms(1), of "Contents resp" "task_order sched ?n" ?w1] by blast
  have pk: "probed_keys cs = map (\<lambda>i. Key (Contents resp ! i)) (task_order sched ?n)"
    using cs(2) by (simp add: task_order_bound)
  have ms: "mset (probed_keys cs) = mset (map Key (Contents resp))"
    unfolding pk by (rule mset_map_nth_perm) (rule task_order_perm)
  have len: "length (probed_keys cs) = ?n"
    using ms by (metis length_map size_mset)
  have dist: "distinct (map Key (Contents resp)) \<longrightarrow> distinct (probed_keys cs)"
    using ms by (metis mset_eq_imp_distinct_iff)
  have res: "\<exists>res. RemoveFilesFromDirectory fm sched dir w = (Return res, w2)"
    using assms run
    by (simp add: RemoveFilesFromDirectory_def call_list_eq split: option.splits)
  show ?thesis
    using res cs(1,3,4) pk ms len dist by auto
qed

theorem RemoveFilesFromDirectory_one_task_per_listed_key_witness:
  "s3 (test_fm three_keys no_http) = Some three_keys
   \<and> ListObjectsV2WithContext three_keys
         \<lparr>list_Bucket = bucket (test_fm three_keys no_http),
          list_Prefix = strings_Trim ''/dir/'' ''/''\<rparr> (store (w0 ()))
       = ((Some \<lparr>Contents = [\<lparr>Key = ''dir/a''\<rparr>, \<lparr>Key = ''dir/b''\<rparr>, \<lparr>Key = ''dir/c''\<rparr>],
                 IsTruncated = False\<rparr>, None), ())
   \<and> distinct [''dir/a'', ''dir/b'', ''dir/c'']
   \<and> (\<exists>res w' cs.
         RemoveFilesFromDirectory (test_fm three_keys no_http) [2, 0] ''/dir/'' (w0 ()) = (Return res, w')
         \<and> calls w' = ListObjectsV2Call \<lparr>list_Bucket = ''test-bucket'', list_Prefix = ''dir''\<rparr> # cs
         \<and> length (probed_keys cs) = 3
         \<and> mset (probed_keys cs) = mset [''dir/a'', ''dir/b'', ''dir/c'']
         \<and> mset (deleted_keys cs) \<subseteq># mset [''dir/a'', ''dir/b'', ''dir/c'']
         \<and> distinct (probed_keys cs))"
proof -
  have h1: "s3 (test_fm three_keys no_http) = Some three_keys"
    by (simp add: test_fm_def)
  have h2: "ListObjectsV2WithContext three_keys
         \<lparr>list_Bucket = bucket (test_fm three_keys no_http),
          list_Prefix = strings_Trim ''/dir/'' ''/''\<rparr> (store (w0 ()))
       = ((Some \<lparr>Contents = [\<lparr>Key = ''dir/a''\<rparr>, \<lparr>Key = ''dir/b''\<rparr>, \<lparr>Key = ''dir/c''\<rparr>],
                 IsTruncated = False\<rparr>, None), ())"
    by (simp add: three_keys_def scripted_client_def listing_def)
  have h3: "distinct [''dir/a'', ''dir/b'', ''dir/c'']"
    by simp
  have tr: "strings_Trim ''/dir/'' ''/'' = ''dir''"
    by (simp add: strings_Trim_def)
  show ?thesis
    using RemoveFilesFromDirectory_one_task_per_listed_key [OF h1 h2, of "[2, 0]"] h1 h2 h3
    by (simp add: tr test_fm_def w0_def numeral_3_eq_3 del: distinct.simps) blast
qed

text \<open>
  C1, as stated, fails. A listing of two objects whose deletions fail with two different
  errors: both tasks fail, and the error returned holds one failure only, that of \<open>dir/a\<close>
  when its task finishes first and that of \<open>dir/b\<close> otherwise.
\<close>

theorem RemoveFilesFromDirectory_aggregation_counterexample:
  "fst (remove (test_fm all_locked no_http) ''dir/a'' (w0 ()))
     = Return (Some (Joined [Sentinel ErrFailedToRemoveFile, Plain ''dir/a is locked'']))
   \<and> fst (remove (test_fm all_locked no_http) ''dir/b'' (w0 ()))
     = Return (Some (Joined [Sentinel ErrFailedToRemoveFile, Plain ''dir/b is locked'']))
   \<and> fst (RemoveFilesFromDirectory (test_fm all_locked no_http) [0, 1] ''dir'' (w0 ()))
     = Return (Some (Joined [Sentinel ErrFailedToRemoveFiles,
                             Joined [Sentinel ErrFailedToRemoveFile, Plain ''dir/a is locked'']]))
   \<and> \<not> carries (Joined [Sentinel ErrFailedToRemoveFiles,
                         Joined [Sentinel ErrFailedToRemoveFile, Plain ''dir/a is locked'']])
                (Plain ''dir/b is locked'')
   \<and> fst (RemoveFilesFromDirectory (test_fm all_locked no_http) [1, 0] ''dir'' (w0 ()))
     = Return (Some (Joined [Sentinel ErrFailedToRemoveFiles,
                             Joined [Sentinel ErrFailedToRemoveFile, Plain ''dir/b is locked'']]))
   \<and> \<not> carries (Joined [Sentinel ErrFailedToRemoveFiles,
                         Joined [Sentinel ErrFailedToRemoveFile, Plain ''dir/b is locked'']])
                (Plain ''dir/a is locked'')"
  by (simp add: scenario_defs all_locked_def locked_def)

text \<open>
  C1, amended. For every prefix whose listing returns \<open>N\<close> objects, with the results \<open>rs\<close> of
  the \<open>N\<close> tasks in the order in which they finish: when at least one task fails,
  \<open>RemoveFilesFromDirectory\<close> returns \<open>ErrFailedToRemoveFiles\<close> joined with one task
  failure, that of the first failed task to finish, which is \<open>ErrFailedToRemoveFile\<close>
  joined with the error of its deletion. The failures of the other tasks are not in the
  result.
\<close>

theorem RemoveFilesFromDirectory_reports_first_failure:
  assumes "s3 fm = Some c"
    and "ListObjectsV2WithContext c \<lparr>list_Bucket = bucket fm, list_Prefix = strings_Trim dir ''/''\<rparr>
           (store w) = ((Some resp, None), s1)"
    and "run_tasks (map (\<lambda>file. remove fm (Key file)) (Contents resp))
           (task_order sched (length (Contents resp)))
           \<lparr>store = s1,
            calls = calls w @ [ListObjectsV2Call \<lparr>list_Bucket = bucket fm,
                                                 list_Prefix = strings_Trim dir ''/''\<rparr>]\<rparr>
         = (Return rs, w2)"
    and "1 \<le> length (filter (\<lambda>r. r \<noteq> None) rs)"
  shows "length rs = length (Contents resp)
     \<and> (\<exists>d rest.
          filter (\<lambda>r. r \<noteq> None) rs = Some (Joined [Sentinel ErrFailedToRemoveFile, d]) # rest
          \<and> RemoveFilesFromDirectory fm sched dir w
              = (Return (Some (Joined [Sentinel ErrFailedToRemoveFiles,
                                       Joined [Sentinel ErrFailedToRemoveFile, d]])), w2)
          \<and> errors_Is (Joined [Sentinel ErrFailedToRemoveFiles,
                               Joined [Sentinel ErrFailedToRemoveFile, d]]) ErrFailedToRemoveFiles
          \<and> errors_Is (Joined [Sentinel ErrFailedToRemoveFiles,
                               Joined [Sentinel ErrFailedToRemoveFile, d]]) ErrFailedToRemoveFile)"
proof -
  let ?n = "length (Contents resp)"
  have shape: "length rs = length (filter (\<lambda>i. i < ?n) (task_order sched ?n))"
    "\<forall>r\<in>set rs. r = None \<or> (\<exists>d. r = Some (Joined [Sentinel ErrFailedToRemoveFile, d]))"
    using run_tasks_remove [OF assms(1), of "Contents resp" "task_order sched ?n"
        "\<lparr>store = s1, calls = calls w @ [ListObjectsV2Call \<lparr>list_Bucket = bucket fm,
                                                 list_Prefix = strings_Trim dir ''/''\<rparr>]\<rparr>"]
      assms(3) by auto
  have len: "length rs = ?n"
    using shape(1) task_order_perm [of sched ?n]
    by (metis task_order_bound length_upt minus_nat.diff_0 size_mset)
  obtain r rest where fl: "filter (\<lambda>r. r \<noteq> None) rs = r # rest"
    using assms(4) by (cases "filter (\<lambda>r. r \<noteq> None) rs") auto
  have "r \<in> set (filter (\<lambda>r. r \<noteq> None) rs)"
    by (simp only: fl list.set_intros)
  then have "r \<in> set rs" "r \<noteq> None"
    by auto
  then obtain d where d: "r = Some (Joined [Sentinel ErrFailedToRemoveFile, d])"
    using shape(2) by blast
  have res: "RemoveFilesFromDirectory fm sched dir w
              = (Return (Some (Joined [Sentinel ErrFailedToRemoveFiles,
                                       Joined [Sentinel ErrFailedToRemoveFile, d]])), w2)"
    using assms(1,2,3) fl d
    by (simp add: RemoveFilesFromDirectory_def call_list_eq errgroup_Wait_def)
  show ?thesis
    using len fl d res by simp
qed

theorem RemoveFilesFromDirectory_reports_first_failure_witness:
  "s3 (test_fm all_locked no_http) = Some all_locked
   \<and> ListObjectsV2WithContext all_locked
         \<lparr>list_Bucket = bucket (test_fm all_locked no_http),
          list_Prefix = strings_Trim ''dir'' ''/''\<rparr> (store (w0 ()))
       = ((Some \<lparr>Contents = [\<lparr>Key = ''dir/a''\<rparr>, \<lparr>Key = ''dir/b''\<rparr>], IsTruncated = False\<rparr>, None), ())
   \<and> (1::nat) \<le> length (filter (\<lambda>r. r \<noteq> None)
         [Some (Joined [Sentinel ErrFailedToRemoveFile, Plain ''dir/b is locked'']),
          Some (Joined [Sentinel ErrFailedToRemoveFile, Plain ''dir/a is locked''])])
   \<and> fst (RemoveFilesFromDirectory (test_fm all_locked no_http) [1] ''dir'' (w0 ()))
       = Return (Some (Joined [Sentinel ErrFailedToRemoveFiles,
                               Joined [Sentinel ErrFailedToRemoveFile, Plain ''dir/b is locked'']]))"
proof -
  let ?fm = "test_fm all_locked no_http"
  let ?resp = "\<lparr>Contents = [\<lparr>Key = ''dir/a''\<rparr>, \<lparr>Key = ''dir/b''\<rparr>], IsTruncated = False\<rparr>"
  let ?rs = "[Some (Joined [Sentinel ErrFailedToRemoveFile, Plain ''dir/b is locked'']),
              Some (Joined [Sentinel ErrFailedToRemoveFile, Plain ''dir/a is locked''])]"
  let ?inp = "\<lparr>list_Bucket = bucket ?fm, list_Prefix = strings_Trim ''dir'' ''/''\<rparr>"
  let ?w2 = "\<lparr>store = (),
              calls = [ListObjectsV2Call \<lparr>list_Bucket = ''test-bucket'', list_Prefix = ''dir''\<rparr>,
                       HeadObjectCall \<lparr>head_Bucket = ''test-bucket'', head_Key = ''dir/b''\<rparr>,
                       DeleteObjectCall \<lparr>delete_Bucket = ''test-bucket'', delete_Key = ''dir/b''\<rparr>,
                       HeadObjectCall \<lparr>head_Bucket = ''test-bucket'', head_Key = ''dir/a''\<rparr>,
                       DeleteObjectCall \<lparr>delete_Bucket = ''test-bucket'', delete_Key = ''dir/a''\<rparr>]\<rparr>"
  have h1: "s3 ?fm = Some all_locked"
    by (simp add: test_fm_def)
  have h2: "ListObjectsV2WithContext all_locked ?inp (store (w0 ())) = ((Some ?resp, None), ())"
    by (simp add: all_locked_def scripted_client_def listing_def)
  have h3: "run_tasks (map (\<lambda>file. remove ?fm (Key file)) (Contents ?resp))
              (task_order [1] (length (Contents ?resp)))
              \<lparr>store = (), calls = calls (w0 ()) @ [ListObjectsV2Call ?inp]\<rparr>
            = (Return ?rs, ?w2)"
    by (simp add: scenario_defs all_locked_def locked_def)
  have h4: "1 \<le> length (filter (\<lambda>r. r \<noteq> None) ?rs)"
    by simp
  show ?thesis
    using RemoveFilesFromDirectory_reports_first_failure [OF h1 h2 h3 h4] h1 h2 h4
    by simp
qed

text \<open>
  C7. The claim: when the list response is a partial page, the objects beyond it are
  fetched and removed, or the caller is told. In the code the flag is never read and the
  listing is called once: with a store holding \<open>dir/a\<close> and \<open>dir/b\<close> and a page size of one
  the response is flagged as truncated, \<open>RemoveFilesFromDirectory\<close> removes \<open>dir/a\<close>, makes
  no second listing call, leaves \<open>dir/b\<close> in the store and returns nil.
\<close>

theorem RemoveFilesFromDirectory_truncated_page:
  "ListObjectsV2WithContext (mem_client 1) \<lparr>list_Bucket = ''test-bucket'', list_Prefix = ''dir''\<rparr>
     [''dir/a'', ''dir/b'']
   = ((Some \<lparr>Contents = [\<lparr>Key = ''dir/a''\<rparr>], IsTruncated = True\<rparr>, None), [''dir/a'', ''dir/b''])
   \<and> RemoveFilesFromDirectory (test_fm (mem_client 1) no_http) [] ''dir/'' (w0 [''dir/a'', ''dir/b''])
   = (Return None, \<lparr>store = [''dir/b''], calls = [
   ListObjectsV2Call \<lparr>list_Bucket = ''test-bucket'', list_Prefix = ''dir''\<rparr>,
   HeadObjectCall \<lparr>head_Bucket = ''test-bucket'', head_Key = ''dir/a''\<rparr>,
   DeleteObjectCall \<lparr>delete_Bucket = ''test-bucket'', delete_Key = ''dir/a''\<rparr>]\<rparr>)"
  by (simp add: RemoveFilesFromDirectory_def remove_def fileExists_def test_fm_def mem_client_def call_head_eq call_delete_eq call_list_eq w0_def handleS3Error_def
   strings_Trim_def strings_HasPrefix_def task_order_def errgroup_Wait_def)

subsection \<open>URLs\<close>

text \<open>
  C6. With the CDN URL \<open>https://cdn.example.com\<close> and the base path \<open>uploads\<close>, the upload
  of \<open>testfile.txt\<close> stores the object under the key \<open>testfile.txt\<close> and returns
  \<open>https://cdn.example.com/uploads/testfile.txt\<close>, as the claim says. The claim goes on:
  \<open>filenameFromURL\<close> recovers the key \<open>testfile.txt\<close> from that URL. In the code it yields
  \<open>/uploads/testfile.txt\<close>, so \<open>Remove\<close> with the URL probes a key that the store does
  not hold, and the uploaded object stays.
\<close>

theorem Remove_misses_uploaded_key:
  "Upload (test_fm (mem_client 1000) no_http) [116, 101, 115, 116] ''testfile.txt'' ''text/plain'' (w0 [])
     = (Return (''https://cdn.example.com/uploads/testfile.txt'', None),
        \<lparr>store = [''testfile.txt''],
         calls = [PutObjectCall \<lparr>put_ACL = ''public-read'', put_Body = [116, 101, 115, 116],
                    put_ContentType = ''text/plain'', put_Bucket = ''test-bucket'', put_Key = ''testfile.txt''\<rparr>]\<rparr>)
   \<and> filenameFromURL ''https://cdn.example.com'' ''https://cdn.example.com/uploads/testfile.txt''
     = ''/uploads/testfile.txt''
   \<and> Remove (test_fm (mem_client 1000) no_http) ''https://cdn.example.com/uploads/testfile.txt'' (w0 [''testfile.txt''])
     = (Return None,
        \<lparr>store = [''testfile.txt''],
         calls = [HeadObjectCall \<lparr>head_Bucket = ''test-bucket'', head_Key = ''/uploads/testfile.txt''\<rparr>]\<rparr>)"
  by (simp add: Upload_def Remove_def remove_def fileExists_def test_fm_def mem_client_def
      call_put_eq call_head_eq w0_def handleS3Error_def fileAbsolutePath_def DefaultACL_def
      strings_Trim_def filenameFromURL_def strings_TrimPrefix_def strings_HasPrefix_def)

text \<open>
  C9. The claim: for every accepted configuration, one with an empty base path included,
  the URL of an upload has exactly one separator at each junction. In the code a
  configuration with the base path set to the empty string is accepted, and the URL of
  \<open>testfile.txt\<close> is then \<open>https://cdn.example.com//testfile.txt\<close>.
\<close>

theorem Upload_empty_base_path_url:
  "NewWithOptions no_http
       [WithS3Client (Some (mem_client 1000)), WithBucketName ''test-bucket'',
        WithCDNURL ''https://cdn.example.com'', WithBasePath ''''] = (Some empty_base_fm, None)
   \<and> Upload empty_base_fm [116, 101, 115, 116] ''testfile.txt'' ''text/plain'' (w0 [])
     = (Return (''https://cdn.example.com//testfile.txt'', None),
        \<lparr>store = [''testfile.txt''],
         calls = [PutObjectCall \<lparr>put_ACL = ''public-read'', put_Body = [116, 101, 115, 116],
                    put_ContentType = ''text/plain'', put_Bucket = ''test-bucket'', put_Key = ''testfile.txt''\<rparr>]\<rparr>)"
  by (simp add: NewWithOptions_def WithS3Client_def WithBucketName_def WithCDNURL_def WithBasePath_def
      empty_base_fm_def Upload_def mem_client_def call_put_eq w0_def fileAbsolutePath_def DefaultACL_def
      strings_Trim_def strings_HasPrefix_def)

subsection \<open>Construction\<close>

text \<open>
  One option: a rejected one returns its cause; an accepted one returns nil, and a required
  field is set afterwards exactly when the option sets it or it was set before.
\<close>

lemma option_of_rejected:
  "rejected a = Some cause \<Longrightarrow> fst (option_of a fm) = Some (Sentinel cause)"
  by (cases a)
     (auto simp: WithS3Client_def WithCustomHTTPClient_def WithBucketName_def WithCDNURL_def
        http_origin_def Let_def split: option.splits if_splits)

lemma option_of_accepted:
  assumes "rejected a = None"
  shows "\<exists>fm'. option_of a fm = (None, fm')
     \<and> (bucket fm' \<noteq> [] \<longleftrightarrow> sets_bucket a \<or> bucket fm \<noteq> [])
     \<and> (s3 fm' \<noteq> None \<longleftrightarrow> sets_client a \<or> s3 fm \<noteq> None)
     \<and> (http_origin (cdnURL fm') \<longleftrightarrow> sets_cdn a \<or> http_origin (cdnURL fm))
     \<and> (\<not> sets_cdn a \<longrightarrow> cdnURL fm' = cdnURL fm)"
  using assms
  by (cases a)
     (auto simp: WithS3Client_def WithCustomHTTPClient_def WithBucketName_def WithCDNURL_def
        WithBasePath_def WithMaxFileSize_def http_origin_def Let_def
        split: option.splits if_splits)

lemma apply_options_rejects:
  "List.map_filter rejected args = cause # rest
   \<Longrightarrow> apply_options (map option_of args) fm = Inl (Sentinel cause)"
proof (induction args arbitrary: fm)
  case Nil
  then show ?case by (simp add: List.map_filter_simps)
next
  case (Cons a args)
  show ?case
  proof (cases "rejected a")
    case None
    then obtain fm' where "option_of a fm = (None, fm')"
      using option_of_accepted [of a fm] by blast
    moreover have "List.map_filter rejected args = cause # rest"
      using Cons.prems None by (simp add: List.map_filter_simps)
    ultimately show ?thesis
      using Cons.IH [of fm'] by simp
  next
    case (Some c)
    then have "c = cause"
      using Cons.prems by (simp add: List.map_filter_simps)
    then show ?thesis
      using option_of_rejected [of a cause fm] Some
      by (cases "option_of a fm") simp
  qed
qed

lemma apply_options_accepts:
  "List.map_filter rejected args = []
   \<Longrightarrow> \<exists>fm'. apply_options (map option_of args) fm = Inr fm'
     \<and> (bucket fm' \<noteq> [] \<longleftrightarrow> list_ex sets_bucket args \<or> bucket fm \<noteq> [])
     \<and> (s3 fm' \<noteq> None \<longleftrightarrow> list_ex sets_client args \<or> s3 fm \<noteq> None)
     \<and> (http_origin (cdnURL fm') \<longleftrightarrow> list_ex sets_cdn args \<or> http_origin (cdnURL fm))
     \<and> (\<not> list_ex sets_cdn args \<longrightarrow> cdnURL fm' = cdnURL fm)"
proof (induction args arbitrary: fm)
  case Nil
  show ?case by simp
next
  case (Cons a args)
  have ra: "rejected a = None" and rest: "List.map_filter rejected args = []"
    using Cons.prems by (auto simp: List.map_filter_simps split: option.splits)
  obtain fm1 where one: "option_of a fm = (None, fm1)"
    "bucket fm1 \<noteq> [] \<longleftrightarrow> sets_bucket a \<or> bucket fm \<noteq> []"
    "s3 fm1 \<noteq> None \<longleftrightarrow> sets_client a \<or> s3 fm \<noteq> None"
    "http_origin (cdnURL fm1) \<longleftrightarrow> sets_cdn a \<or> http_origin (cdnURL fm)"
    "\<not> sets_cdn a \<longrightarrow> cdnURL fm1 = cdnURL fm"
    using option_of_accepted [OF ra, of fm] by blast
  obtain fm' where more: "apply_options (map option_of args) fm1 = Inr fm'"
    "bucket fm' \<noteq> [] \<longleftrightarrow> list_ex sets_bucket args \<or> bucket fm1 \<noteq> []"
    "s3 fm' \<noteq> None \<longleftrightarrow> list_ex sets_client args \<or> s3 fm1 \<noteq> None"
    "http_origin (cdnURL fm') \<longleftrightarrow> list_ex sets_cdn args \<or> http_origin (cdnURL fm1)"
    "\<not> list_ex sets_cdn args \<longrightarrow> cdnURL fm' = cdnURL fm1"
    using Cons.IH [OF rest, of fm1] by blast
  have "apply_options (map option_of (a # args)) fm = Inr fm'"
    using one(1) more(1) by simp
  then show ?case
    using one(2-) more(2-) by auto
qed

text \<open>
  C8. For every list of the package's options: when a required field is missing or invalid
  (\<open>config_fault\<close> names the cause: \<open>ErrMissedBucketName\<close>, \<open>ErrMissedS3Client\<close>,
  \<open>ErrMissedCDNURL\<close> or \<open>ErrInvalidCDNURL\<close>; with several faults, that of the first option in
  the list that is rejected), \<open>NewWithOptions\<close> returns no file manager and
  \<open>ErrInvalidS3ClientConfig\<close> joined with that cause. When there is no fault it returns a
  file manager whose bucket name is not empty, whose client is not nil and whose CDN URL is
  not empty and starts with \<open>http://\<close> or \<open>https://\<close>.
\<close>

theorem NewWithOptions_validation:
  "(config_fault args = Some cause \<longrightarrow>
      NewWithOptions h (map option_of args)
        = (None, Some (Joined [Sentinel ErrInvalidS3ClientConfig, Sentinel cause]))
      \<and> errors_Is (Joined [Sentinel ErrInvalidS3ClientConfig, Sentinel cause]) ErrInvalidS3ClientConfig
      \<and> errors_Is (Joined [Sentinel ErrInvalidS3ClientConfig, Sentinel cause]) cause)
   \<and> (config_fault args = None \<longrightarrow>
      (\<exists>fm. NewWithOptions h (map option_of args) = (Some fm, None)
         \<and> bucket fm \<noteq> [] \<and> s3 fm \<noteq> None \<and> http_origin (cdnURL fm)))"
proof (cases "List.map_filter rejected args")
  case (Cons c rest)
  then show ?thesis
    using apply_options_rejects [OF Cons]
    by (simp add: config_fault_def NewWithOptions_def)
next
  case Nil
  let ?fm0 = "\<lparr>s3 = None, httpClient = h, cdnURL = [], bucket = [],
               basePath = ''uploads'', maxFileSize = DefaultMaxFileSize\<rparr>"
  obtain fm where fm: "apply_options (map option_of args) ?fm0 = Inr fm"
    "bucket fm \<noteq> [] \<longleftrightarrow> list_ex sets_bucket args"
    "s3 fm \<noteq> None \<longleftrightarrow> list_ex sets_client args"
    "http_origin (cdnURL fm) \<longleftrightarrow> list_ex sets_cdn args"
    "\<not> list_ex sets_cdn args \<longrightarrow> cdnURL fm = []"
    using apply_options_accepts [OF Nil, of ?fm0] by (auto simp: http_origin_def)
  have cdn: "cdnURL fm \<noteq> [] \<longleftrightarrow> list_ex sets_cdn args"
    using fm(4,5) by (auto simp: http_origin_def)
  show ?thesis
    using Nil fm(1,2,3,4) cdn
    by (auto simp: config_fault_def NewWithOptions_def)
qed

theorem NewWithOptions_validation_witness:
  "NewWithOptions no_http
     [WithS3Client (Some (mem_client 1000)), WithBucketName [], WithCDNURL ''https://cdn.example.com'']
     = (None, Some (Joined [Sentinel ErrInvalidS3ClientConfig, Sentinel ErrMissedBucketName]))
   \<and> NewWithOptions no_http
     [WithS3Client (None :: string list S3Client option), WithBucketName ''test-bucket'',
      WithCDNURL ''https://cdn.example.com'']
     = (None, Some (Joined [Sentinel ErrInvalidS3ClientConfig, Sentinel ErrMissedS3Client]))
   \<and> NewWithOptions no_http
     [WithS3Client (Some (mem_client 1000)), WithBucketName ''test-bucket'', WithCDNURL []]
     = (None, Some (Joined [Sentinel ErrInvalidS3ClientConfig, Sentinel ErrMissedCDNURL]))
   \<and> NewWithOptions no_http
     [WithS3Client (Some (mem_client 1000)), WithBucketName ''test-bucket'', WithCDNURL ''not-a-url'']
     = (None, Some (Joined [Sentinel ErrInvalidS3ClientConfig, Sentinel ErrInvalidCDNURL]))
   \<and> NewWithOptions no_http [WithS3Client (Some (mem_client 1000)), WithCDNURL ''https://cdn.example.com'']
     = (None, Some (Joined [Sentinel ErrInvalidS3ClientConfig, Sentinel ErrMissedBucketName]))
   \<and> config_fault good_args = None
   \<and> (\<exists>fm. NewWithOptions no_http (map option_of good_args) = (Some fm, None)
         \<and> bucket fm \<noteq> [] \<and> s3 fm \<noteq> None \<and> http_origin (cdnURL fm))"
proof -
  have tr: "strings_Trim ''https://cdn.example.com'' ''/'' = ''https://cdn.example.com''"
    "strings_Trim ''not-a-url'' ''/'' = ''not-a-url''" "strings_Trim [] ''/'' = []"
    by (simp_all add: strings_Trim_def)
  have f1: "config_fault [ArgS3Client (Some (mem_client 1000)), ArgBucketName [],
              ArgCDNURL ''https://cdn.example.com''] = Some ErrMissedBucketName"
    by (simp add: config_fault_def List.map_filter_simps)
  have f2: "config_fault [ArgS3Client (None :: string list S3Client option),
              ArgBucketName ''test-bucket'', ArgCDNURL ''https://cdn.example.com'']
            = Some ErrMissedS3Client"
    by (simp add: config_fault_def List.map_filter_simps)
  have f3: "config_fault [ArgS3Client (Some (mem_client 1000)), ArgBucketName ''test-bucket'',
              ArgCDNURL []] = Some ErrMissedCDNURL"
    by (simp add: config_fault_def List.map_filter_simps tr)
  have f4: "config_fault [ArgS3Client (Some (mem_client 1000)), ArgBucketName ''test-bucket'',
              ArgCDNURL ''not-a-url''] = Some ErrInvalidCDNURL"
    by (simp add: config_fault_def List.map_filter_simps tr http_origin_def strings_HasPrefix_def)
  have f5: "config_fault [ArgS3Client (Some (mem_client 1000)),
              ArgCDNURL ''https://cdn.example.com''] = Some ErrMissedBucketName"
    by (simp add: config_fault_def List.map_filter_simps tr http_origin_def strings_HasPrefix_def)
  have f6: "config_fault good_args = None"
    by (simp add: good_args_def config_fault_def List.map_filter_simps tr http_origin_def
        strings_HasPrefix_def)
  show ?thesis
    using NewWithOptions_validation [of "[ArgS3Client (Some (mem_client 1000)), ArgBucketName [],
              ArgCDNURL ''https://cdn.example.com'']" ErrMissedBucketName no_http]
      NewWithOptions_validation [of "[ArgS3Client (None :: string list S3Client option),
              ArgBucketName ''test-bucket'', ArgCDNURL ''https://cdn.example.com'']"
              ErrMissedS3Client no_http]
      NewWithOptions_validation [of "[ArgS3Client (Some (mem_client 1000)),
              ArgBucketName ''test-bucket'', ArgCDNURL []]" ErrMissedCDNURL no_http]
      NewWithOptions_validation [of "[ArgS3Client (Some (mem_client 1000)),
              ArgBucketName ''test-bucket'', ArgCDNURL ''not-a-url'']" ErrInvalidCDNURL no_http]
      NewWithOptions_validation [of "[ArgS3Client (Some (mem_client 1000)),
              ArgCDNURL ''https://cdn.example.com'']" ErrMissedBucketName no_http]
      NewWithOptions_validation [of good_args _ no_http]
      f1 f2 f3 f4 f5 f6
    by simp
qed

end
